theory Spec2Isabelle
  imports Complex_Main "HOL-Library.Word"
begin

section \<open>JavaScript strings\<close>

text \<open>
  A JavaScript string is a sequence of 16-bit code units. A literal of the source is
  written \<open>str ''...''\<close>: the ASCII characters of the literal, each as its code unit.
\<close>

type_synonym jschar = "16 word"
type_synonym jsstring = "jschar list"

definition str :: "string \<Rightarrow> jsstring" where
  "str s = map (\<lambda>c. of_nat (of_char c)) s"

text \<open>
  \<open>String.prototype.trim\<close> removes leading and trailing WhiteSpace and LineTerminator
  code points: TAB, LF, VT, FF, CR, SP, NBSP, U+1680, U+2000 to U+200A, U+2028, U+2029,
  U+202F, U+205F, U+3000 and U+FEFF (all of them single code units).
\<close>

definition isWhiteSpace :: "jschar \<Rightarrow> bool" where
  "isWhiteSpace c \<longleftrightarrow>
     c = 0x09 \<or> c = 0x0A \<or> c = 0x0B \<or> c = 0x0C \<or> c = 0x0D \<or> c = 0x20 \<or> c = 0xA0
     \<or> c = 0x1680 \<or> (0x2000 \<le> c \<and> c \<le> 0x200A) \<or> c = 0x2028 \<or> c = 0x2029
     \<or> c = 0x202F \<or> c = 0x205F \<or> c = 0x3000 \<or> c = 0xFEFF"

definition trim :: "jsstring \<Rightarrow> jsstring" where
  "trim s = rev (dropWhile isWhiteSpace (rev (dropWhile isWhiteSpace s)))"

text \<open>\<open>s.startsWith(p)\<close>.\<close>

fun startsWith :: "jsstring \<Rightarrow> jsstring \<Rightarrow> bool" where
  "startsWith s [] = True"
| "startsWith [] (p # ps) = False"
| "startsWith (c # cs) (p # ps) = (c = p \<and> startsWith cs ps)"

text \<open>
  \<open>s.replace(/\/$/, '')\<close>: the pattern has no flag, so \<open>$\<close> matches at the end of the
  string only, and at most one slash, the last code unit, is removed.
\<close>

definition stripTrailingSlash :: "jsstring \<Rightarrow> jsstring" where
  "stripTrailingSlash s = (if s \<noteq> [] \<and> last s = 0x2F then butlast s else s)"

section \<open>The agent registry (useAgent)\<close>

text \<open>
  Modelled from the spec: the type \<open>Agent\<close> is declared in \<open>./presets/agents\<close>, which is
  not among the sources. The specification gives a persona record with a unique
  identifier, a name, a system-prompt fragment and voice/visual settings.
  \<open>Partial<Agent>\<close> has every field optional; \<open>None\<close> is a key that is absent (a key
  given with the value \<open>undefined\<close> is not modelled).
  The fields \<open>id\<close> and \<open>name\<close> are written \<open>agent_id\<close> and \<open>agent_name\<close>.
\<close>

record Agent =
  agent_id :: jsstring
  agent_name :: jsstring
  systemPromptFragment :: jsstring
  voice :: jsstring
  visual :: jsstring

record PartialAgent =
  p_id :: "jsstring option"
  p_name :: "jsstring option"
  p_systemPromptFragment :: "jsstring option"
  p_voice :: "jsstring option"
  p_visual :: "jsstring option"

text \<open>
  The store. Its type declares \<open>current: Agent\<close>, but \<open>setCurrent\<close> can store
  \<open>undefined\<close> there, so the field is an option: \<open>None\<close> is \<open>undefined\<close>.
\<close>

record AgentState =
  current :: "Agent option"
  availablePresets :: "Agent list"
  availablePersonal :: "Agent list"

datatype exn = TypeError | SdkError | FetchRejected | BodyNotJson

text \<open>\<open>xs.find(p) || ys.find(p)\<close>: an agent object is truthy, \<open>undefined\<close> is not.\<close>

definition getAgentById :: "AgentState \<Rightarrow> jsstring \<Rightarrow> Agent option" where
  "getAgentById s aid =
     (case find (\<lambda>agent. agent_id agent = aid) (availablePersonal s) of
        Some a \<Rightarrow> Some a
      | None \<Rightarrow> find (\<lambda>agent. agent_id agent = aid) (availablePresets s))"

definition addAgent :: "Agent \<Rightarrow> AgentState \<Rightarrow> AgentState" where
  "addAgent agent s =
     s\<lparr>availablePersonal := availablePersonal s @ [agent], current := Some agent\<rparr>"

text \<open>
  \<open>set({ current: ... })\<close> merges the given object over the state with \<open>Object.assign\<close>,
  which copies the key \<open>current\<close> also when its value is \<open>undefined\<close>.
  The argument is an identifier (\<open>Inl\<close>) or an agent (\<open>Inr\<close>).
\<close>

definition setCurrent :: "jsstring + Agent \<Rightarrow> AgentState \<Rightarrow> AgentState" where
  "setCurrent agent s =
     s\<lparr>current := (case agent of Inl aid \<Rightarrow> getAgentById s aid | Inr a \<Rightarrow> Some a)\<rparr>"

text \<open>\<open>{ ...agent, ...adjustments }\<close>: every key present in the adjustments wins.\<close>

definition spread :: "Agent \<Rightarrow> PartialAgent \<Rightarrow> Agent" where
  "spread agent adj =
     \<lparr> agent_id = (case p_id adj of None \<Rightarrow> agent_id agent | Some v \<Rightarrow> v),
       agent_name = (case p_name adj of None \<Rightarrow> agent_name agent | Some v \<Rightarrow> v),
       systemPromptFragment =
         (case p_systemPromptFragment adj of None \<Rightarrow> systemPromptFragment agent | Some v \<Rightarrow> v),
       voice = (case p_voice adj of None \<Rightarrow> voice agent | Some v \<Rightarrow> v),
       visual = (case p_visual adj of None \<Rightarrow> visual agent | Some v \<Rightarrow> v) \<rparr>"

text \<open>
  \<open>update\<close> returns early when the identifier is not found. Otherwise the updater reads
  \<open>state.current.id\<close>, which throws a TypeError when \<open>current\<close> is \<open>undefined\<close>.
\<close>

definition update :: "jsstring \<Rightarrow> PartialAgent \<Rightarrow> AgentState \<Rightarrow> exn + AgentState" where
  "update agentId adjustments s =
     (case getAgentById s agentId of
        None \<Rightarrow> Inr s
      | Some agent \<Rightarrow>
          (let updatedAgent = spread agent adjustments in
           case current s of
             None \<Rightarrow> Inl TypeError
           | Some cur \<Rightarrow>
               Inr (s\<lparr>availablePresets :=
                        map (\<lambda>a. if agent_id a = agentId then updatedAgent else a) (availablePresets s),
                      availablePersonal :=
                        map (\<lambda>a. if agent_id a = agentId then updatedAgent else a) (availablePersonal s),
                      current := Some (if agent_id cur = agentId then updatedAgent else cur)\<rparr>)))"

section \<open>The configuration store (useConfig)\<close>

datatype ModelProvider = gemini | local_provider

record Config =
  provider :: ModelProvider
  localEndpoint :: jsstring
  localModelId :: jsstring

definition initialConfig :: Config where
  "initialConfig =
     \<lparr> provider = gemini,
       localEndpoint = str ''http://localhost:11434/v1'',
       localModelId = str ''llama3'' \<rparr>"

definition setProvider :: "ModelProvider \<Rightarrow> Config \<Rightarrow> Config" where
  "setProvider p c = c\<lparr>provider := p\<rparr>"

definition setLocalEndpoint :: "jsstring \<Rightarrow> Config \<Rightarrow> Config" where
  "setLocalEndpoint e c = c\<lparr>localEndpoint := e\<rparr>"

definition setLocalModelId :: "jsstring \<Rightarrow> Config \<Rightarrow> Config" where
  "setLocalModelId m c = c\<lparr>localModelId := m\<rparr>"

section \<open>JavaScript values\<close>

text \<open>
  What \<open>response.json()\<close> resolves to, and what ends up in a message's \<open>text\<close>: the
  local branch stores whatever value the response holds, not only strings. A number is
  the parsed value; only its being zero matters below. An object is its own properties,
  one pair per key.
\<close>

datatype jsval =
    JUndefined
  | JNull
  | JBool bool
  | JNum real
  | JStr jsstring
  | JArr "jsval list"
  | JObj "(jsstring \<times> jsval) list"

fun truthy :: "jsval \<Rightarrow> bool" where
  "truthy JUndefined = False"
| "truthy JNull = False"
| "truthy (JBool b) = b"
| "truthy (JNum x) = (x \<noteq> 0)"
| "truthy (JStr s) = (s \<noteq> [])"
| "truthy (JArr xs) = True"
| "truthy (JObj kvs) = True"

fun nullish :: "jsval \<Rightarrow> bool" where
  "nullish JUndefined = True"
| "nullish JNull = True"
| "nullish v = False"

text \<open>
  \<open>v.k\<close> for a value that is not nullish and a key \<open>k\<close> that is neither an index nor
  \<open>length\<close> nor a name of the built-in prototypes (here \<open>choices\<close>, \<open>message\<close>, \<open>content\<close>):
  only an object can have it.
\<close>

fun getNamed :: "jsval \<Rightarrow> jsstring \<Rightarrow> jsval" where
  "getNamed (JObj kvs) k = (case map_of kvs k of None \<Rightarrow> JUndefined | Some v \<Rightarrow> v)"
| "getNamed v k = JUndefined"

text \<open>
  \<open>v[0]\<close> for a value that is not nullish: the first element of an array, the first
  code unit of a string, the property \<open>"0"\<close> of an object.
\<close>

fun getIndex0 :: "jsval \<Rightarrow> jsval" where
  "getIndex0 (JArr xs) = (case xs of [] \<Rightarrow> JUndefined | x # _ \<Rightarrow> x)"
| "getIndex0 (JStr s) = (case s of [] \<Rightarrow> JUndefined | c # _ \<Rightarrow> JStr [c])"
| "getIndex0 (JObj kvs) = (case map_of kvs (str ''0'') of None \<Rightarrow> JUndefined | Some v \<Rightarrow> v)"
| "getIndex0 v = JUndefined"

text \<open>
  \<open>data.choices?.[0]?.message?.content\<close>: the first access is not optional and throws
  on \<open>null\<close>; each \<open>?.\<close> ends the whole chain with \<open>undefined\<close> on a nullish value.
\<close>

definition readContent :: "jsval \<Rightarrow> exn + jsval" where
  "readContent data =
     (if nullish data then Inl TypeError
      else let choices = getNamed data (str ''choices'') in
        if nullish choices then Inr JUndefined
        else let first = getIndex0 choices in
          if nullish first then Inr JUndefined
          else let message = getNamed first (str ''message'') in
            if nullish message then Inr JUndefined
            else Inr (getNamed message (str ''content'')))"

text \<open>\<open>a || b\<close>.\<close>

definition orElse :: "jsval \<Rightarrow> jsval \<Rightarrow> jsval" where
  "orElse a b = (if truthy a then a else b)"

section \<open>The identity and conversation stores (useUser, useUI)\<close>

record User =
  name :: "jsstring option"
  info :: "jsstring option"

definition setName :: "jsstring \<Rightarrow> User \<Rightarrow> User" where
  "setName n u = u\<lparr>name := Some n\<rparr>"

definition setInfo :: "jsstring \<Rightarrow> User \<Rightarrow> User" where
  "setInfo i u = u\<lparr>info := Some i\<rparr>"

datatype Role = user | model

text \<open>The fields \<open>name\<close>, \<open>type\<close>, \<open>data\<close> of an attachment.\<close>

record Attachment =
  att_name :: jsstring
  att_type :: jsstring
  att_data :: jsstring

text \<open>
  \<open>timestamp\<close> is the clock reading of \<open>new Date()\<close>; the optional fields are \<open>None\<close>
  when absent. The fields \<open>text\<close> and \<open>attachments\<close> are written \<open>msg_text\<close> and
  \<open>msg_attachments\<close>.
\<close>

record ChatMessage =
  role :: Role
  msg_text :: jsval
  timestamp :: nat
  msg_attachments :: "Attachment list option"
  groundingChunks :: "jsval option"

record UI =
  showUserConfig :: bool
  showAgentEdit :: bool
  showChatAssistant :: bool
  chatMessages :: "ChatMessage list"
  isCodingMode :: bool

definition addChatMessage :: "ChatMessage \<Rightarrow> UI \<Rightarrow> UI" where
  "addChatMessage msg s = s\<lparr>chatMessages := chatMessages s @ [msg]\<rparr>"

definition setCodingMode :: "bool \<Rightarrow> UI \<Rightarrow> UI" where
  "setCodingMode m s = s\<lparr>isCodingMode := m\<rparr>"

section \<open>The dispatch function (sendMessage of ChatAssistant)\<close>

subsection \<open>Outbound requests\<close>

text \<open>One element of \<open>parts\<close>: \<open>{ text }\<close> or \<open>{ inlineData: { mimeType, data } }\<close>.\<close>

datatype part = TextPart jsstring | InlineData jsstring jsstring

record content =
  c_role :: jsstring
  c_parts :: "part list"

datatype tool = googleSearch

text \<open>The argument of \<open>ai.models.generateContent\<close>.\<close>

record cloud_request =
  g_model :: jsstring
  g_contents :: "content list"
  g_systemInstruction :: jsstring
  g_tools :: "tool list"

record wire_message =
  w_role :: jsstring
  w_content :: jsval

text \<open>The object given to \<open>JSON.stringify\<close>, and the arguments of \<open>fetch\<close>.\<close>

record local_body =
  b_model :: jsstring
  b_messages :: "wire_message list"
  b_temperature :: real

record local_request =
  url :: jsstring
  http_method :: jsstring
  headers :: "(jsstring \<times> jsstring) list"
  body :: local_body

datatype outbound = CloudCall cloud_request | LocalCall local_request

subsection \<open>What the outside answers\<close>

text \<open>
  The fields of the SDK's response that the code reads: \<open>response.text\<close> and the value of
  \<open>response.candidates?.[0]?.groundingMetadata?.groundingChunks\<close>.
\<close>

record cloud_response =
  r_text :: "jsstring option"
  r_groundingChunks :: "jsval option"

text \<open>
  The cloud call: the constructor of the SDK client throws (nothing is sent), the call
  rejects, or it resolves. The local call: \<open>fetch\<close> rejects, \<open>response.json()\<close> rejects,
  or it resolves to a value.
\<close>

datatype cloud_outcome = CtorThrows | GenerateRejects | GenerateResolves cloud_response

datatype local_outcome = FetchRejects | JsonRejects | JsonResolves jsval

record env =
  now_sent :: nat
  now_reply :: nat
  cloud :: cloud_outcome
  local :: local_outcome

subsection \<open>The component and the stores it reads\<close>

text \<open>
  The three \<open>useState\<close> cells of the component, the stores it reads, and the log of the
  requests sent. A call of \<open>sendMessage\<close> sees, in its closure, the values of the render
  it was created in: the state it is called in.
\<close>

record world =
  uiStore :: UI
  userStore :: User
  configStore :: Config
  input :: jsstring
  loading :: bool
  attachments :: "Attachment list"
  calls :: "outbound list"

definition addMessage :: "ChatMessage \<Rightarrow> world \<Rightarrow> world" where
  "addMessage msg w = w\<lparr>uiStore := addChatMessage msg (uiStore w)\<rparr>"

definition setInput :: "jsstring \<Rightarrow> world \<Rightarrow> world" where
  "setInput v w = w\<lparr>input := v\<rparr>"

definition setAttachments :: "Attachment list \<Rightarrow> world \<Rightarrow> world" where
  "setAttachments v w = w\<lparr>attachments := v\<rparr>"

definition setLoading :: "bool \<Rightarrow> world \<Rightarrow> world" where
  "setLoading v w = w\<lparr>loading := v\<rparr>"

definition send :: "outbound \<Rightarrow> world \<Rightarrow> world" where
  "send c w = w\<lparr>calls := calls w @ [c]\<rparr>"

subsection \<open>Building the requests\<close>

text \<open>\<open>name || 'the user'\<close> inside the template of the system instruction.\<close>

definition systemInstruction :: "bool \<Rightarrow> jsstring option \<Rightarrow> jsstring" where
  "systemInstruction coding nm =
     (if coding
      then str ''You are an anonymous coding agent. You are elite, pithy, and focused on executing and debugging complex code.''
      else str ''You are a helpful personal assistant helping ''
           @ (case nm of None \<Rightarrow> str ''the user''
              | Some n \<Rightarrow> if n \<noteq> [] then n else str ''the user'')
           @ str ''.'')"

text \<open>
  One round of the \<open>forEach\<close> over the attachments: an image is pushed as an inline part,
  any other file extends the text of \<open>parts[0]\<close> by a line feed and
  \<open>[Attached File: name]\<close>.
\<close>

definition attach :: "part list \<Rightarrow> Attachment \<Rightarrow> part list" where
  "attach parts att =
     (if startsWith (att_type att) (str ''image/'')
      then parts @ [InlineData (att_type att) (att_data att)]
      else (case parts of
              TextPart t # rest \<Rightarrow>
                TextPart (t @ 0x0A # str ''[Attached File: '' @ att_name att @ str '']'') # rest
            | _ \<Rightarrow> parts))"

definition cloudParts :: "jsstring \<Rightarrow> Attachment list \<Rightarrow> part list" where
  "cloudParts inp atts = foldl attach [TextPart inp] atts"

definition cloudRequest :: "bool \<Rightarrow> jsstring \<Rightarrow> part list \<Rightarrow> cloud_request" where
  "cloudRequest coding sys parts =
     \<lparr> g_model = str ''gemini-3-pro-preview'',
       g_contents = [\<lparr> c_role = str ''user'', c_parts = parts \<rparr>],
       g_systemInstruction = sys,
       g_tools = (if coding then [googleSearch] else []) \<rparr>"

definition wireMessage :: "ChatMessage \<Rightarrow> wire_message" where
  "wireMessage m =
     \<lparr> w_role = (if role m = user then str ''user'' else str ''assistant''),
       w_content = msg_text m \<rparr>"

definition localRequest ::
  "jsstring \<Rightarrow> jsstring \<Rightarrow> jsstring \<Rightarrow> ChatMessage list \<Rightarrow> jsstring \<Rightarrow> local_request" where
  "localRequest endpoint modelId sys history inp =
     \<lparr> url = stripTrailingSlash endpoint @ str ''/chat/completions'',
       http_method = str ''POST'',
       headers = [(str ''Content-Type'', str ''application/json'')],
       body = \<lparr> b_model = modelId,
                b_messages =
                  [\<lparr> w_role = str ''system'', w_content = JStr sys \<rparr>]
                  @ map wireMessage history
                  @ [\<lparr> w_role = str ''user'', w_content = JStr inp \<rparr>],
                b_temperature = 0.7 \<rparr> \<rparr>"

subsection \<open>try, catch, finally\<close>

text \<open>
  A block of statements takes the state to a new state and either completes (\<open>None\<close>)
  or throws. The handler runs only when the body throws; the last block runs in every
  case; what leaves the statement is what the last block throws, or else what the
  handler throws.
\<close>

type_synonym block = "world \<Rightarrow> exn option \<times> world"

definition tryCatchFinally :: "block \<Rightarrow> (exn \<Rightarrow> block) \<Rightarrow> block \<Rightarrow> block" where
  "tryCatchFinally tryB catchB finallyB w =
     (let (thrown, w1) = tryB w;
          (escaped, w2) = (case thrown of None \<Rightarrow> (None, w1) | Some err \<Rightarrow> catchB err w1);
          (last_thrown, w3) = finallyB w2
      in (case last_thrown of Some err \<Rightarrow> Some err | None \<Rightarrow> escaped, w3))"

subsection \<open>sendMessage\<close>

text \<open>The test of the first line: \<open>(!input.trim() && attachments.length === 0) || loading\<close>.\<close>

definition rejected :: "world \<Rightarrow> bool" where
  "rejected w \<longleftrightarrow> (trim (input w) = [] \<and> length (attachments w) = 0) \<or> loading w"

definition userMessage :: "env \<Rightarrow> world \<Rightarrow> ChatMessage" where
  "userMessage e c =
     \<lparr> role = user, msg_text = JStr (input c), timestamp = now_sent e,
       msg_attachments = Some (attachments c), groundingChunks = None \<rparr>"

text \<open>
  The cloud branch. \<open>c\<close> is the state the function was called in, whose values the
  closure holds; \<open>userMsg.attachments\<close> is the copy of the attachments made there.
\<close>

definition cloudBranch :: "env \<Rightarrow> world \<Rightarrow> ChatMessage \<Rightarrow> jsstring \<Rightarrow> block" where
  "cloudBranch e c userMsg sys w =
     (case cloud e of
        CtorThrows \<Rightarrow> (Some SdkError, w)
      | GenerateRejects \<Rightarrow>
          (let parts = cloudParts (input c)
                         (case msg_attachments userMsg of None \<Rightarrow> [] | Some atts \<Rightarrow> atts);
               w1 = send (CloudCall (cloudRequest (isCodingMode (uiStore c)) sys parts)) w
           in (Some SdkError, w1))
      | GenerateResolves response \<Rightarrow>
          (let parts = cloudParts (input c)
                         (case msg_attachments userMsg of None \<Rightarrow> [] | Some atts \<Rightarrow> atts);
               w1 = send (CloudCall (cloudRequest (isCodingMode (uiStore c)) sys parts)) w
           in (None,
               addMessage
                 \<lparr> role = model,
                   msg_text = JStr (case r_text response of
                                      None \<Rightarrow> str ''Empty response''
                                    | Some t \<Rightarrow> if t \<noteq> [] then t else str ''Empty response''),
                   timestamp = now_reply e,
                   msg_attachments = None,
                   groundingChunks = r_groundingChunks response \<rparr> w1)))"

definition localBranch :: "env \<Rightarrow> world \<Rightarrow> jsstring \<Rightarrow> block" where
  "localBranch e c sys w =
     (let w1 = send (LocalCall (localRequest (localEndpoint (configStore c))
                                  (localModelId (configStore c)) sys
                                  (chatMessages (uiStore c)) (input c))) w
      in case local e of
           FetchRejects \<Rightarrow> (Some FetchRejected, w1)
         | JsonRejects \<Rightarrow> (Some BodyNotJson, w1)
         | JsonResolves data \<Rightarrow>
             (case readContent data of
                Inl err \<Rightarrow> (Some err, w1)
              | Inr found \<Rightarrow>
                  (None,
                   addMessage
                     \<lparr> role = model,
                       msg_text = orElse found (JStr (str ''Local engine error.'')),
                       timestamp = now_reply e,
                       msg_attachments = None,
                       groundingChunks = None \<rparr> w1)))"

definition tryBlock :: "env \<Rightarrow> world \<Rightarrow> ChatMessage \<Rightarrow> block" where
  "tryBlock e c userMsg w =
     (let sys = systemInstruction (isCodingMode (uiStore c)) (name (userStore c))
      in if provider (configStore c) = gemini
         then cloudBranch e c userMsg sys w
         else localBranch e c sys w)"

definition networkErrorMessage :: "env \<Rightarrow> world \<Rightarrow> ChatMessage" where
  "networkErrorMessage e c =
     \<lparr> role = model,
       msg_text = JStr (str ''Network Error: Verify that your ''
                        @ (if provider (configStore c) = local_provider
                           then str ''local server is running and CORS is enabled''
                           else str ''API Key is valid'')
                        @ str ''.''),
       timestamp = now_reply e,
       msg_attachments = None,
       groundingChunks = None \<rparr>"

text \<open>The handler logs the error to the console and appends the notice.\<close>

definition catchBlock :: "env \<Rightarrow> world \<Rightarrow> exn \<Rightarrow> block" where
  "catchBlock e c err w = (None, addMessage (networkErrorMessage e c) w)"

definition finallyBlock :: block where
  "finallyBlock w = (None, setLoading False w)"

text \<open>
  The result is the error the returned promise rejects with, if any, and the state when
  the function has ended.
\<close>

definition sendMessage :: "env \<Rightarrow> world \<Rightarrow> exn option \<times> world" where
  "sendMessage e w =
     (if rejected w then (None, w)
      else
        let userMsg = userMessage e w;
            w1 = addMessage userMsg w;
            w2 = setInput [] w1;
            w3 = setAttachments [] w2;
            w4 = setLoading True w3
        in tryCatchFinally (tryBlock e w userMsg) (catchBlock e w) finallyBlock w4)"

text \<open>The state in which the \<open>try\<close> statement is entered.\<close>

definition started :: "env \<Rightarrow> world \<Rightarrow> world" where
  "started e w =
     setLoading True (setAttachments [] (setInput [] (addMessage (userMessage e w) w)))"

section \<open>Example data\<close>

text \<open>
  Sample agents, conversations and responses on which the theorems below are run. The
  presets of the source (\<open>Paul\<close>, \<open>Charlotte\<close>, ...) are declared in \<open>./presets/agents\<close>;
  the field values here are samples.
\<close>

definition paul :: Agent where
  "paul = \<lparr> agent_id = str ''paul'', agent_name = str ''Paul'',
            systemPromptFragment = str ''calm'', voice = str ''Orus'', visual = str ''blue'' \<rparr>"

definition charlotte :: Agent where
  "charlotte = \<lparr> agent_id = str ''charlotte'', agent_name = str ''Charlotte'',
                 systemPromptFragment = str ''witty'', voice = str ''Aoede'',
                 visual = str ''pink'' \<rparr>"


definition exampleRegistry :: AgentState where
  "exampleRegistry =
     \<lparr> current = Some paul, availablePresets = [paul, charlotte], availablePersonal = [] \<rparr>"








definition photo :: Attachment where
  "photo = \<lparr> att_name = str ''cat.png'', att_type = str ''image/png'',
              att_data = str ''iVBORw0KGgo='' \<rparr>"

definition memo :: Attachment where
  "memo = \<lparr> att_name = str ''notes.txt'', att_type = str ''text/plain'',
             att_data = str ''aGVsbG8='' \<rparr>"

definition exampleHistory :: "ChatMessage list" where
  "exampleHistory =
     [\<lparr> role = user, msg_text = JStr (str ''ping''), timestamp = 1,
         msg_attachments = Some [], groundingChunks = None \<rparr>,
      \<lparr> role = model, msg_text = JStr (str ''pong''), timestamp = 2,
         msg_attachments = None, groundingChunks = None \<rparr>]"

definition cloudWorld :: world where
  "cloudWorld =
     \<lparr> uiStore = \<lparr> showUserConfig = False, showAgentEdit = False, showChatAssistant = True,
                   chatMessages = exampleHistory, isCodingMode = False \<rparr>,
       userStore = \<lparr> name = Some (str ''Ann''), info = Some [] \<rparr>,
       configStore = initialConfig,
       input = str ''describe these'',
       loading = False,
       attachments = [photo, memo],
       calls = [] \<rparr>"

definition localWorld :: world where
  "localWorld =
     cloudWorld\<lparr> configStore :=
                   \<lparr> provider = local_provider,
                     localEndpoint = str ''http://localhost:11434/v1/'',
                     localModelId = str ''llama3'' \<rparr> \<rparr>"

definition blankWorld :: world where
  "blankWorld = cloudWorld\<lparr> input := [0x20, 0x09, 0x3000], attachments := [] \<rparr>"

definition busyWorld :: world where
  "busyWorld = cloudWorld\<lparr> loading := True \<rparr>"

text \<open>The response \<open>{choices: [{message: {content: "hi"}}]}\<close>, and the same with \<open>""\<close>.\<close>

definition hiResponse :: jsval where
  "hiResponse =
     JObj [(str ''choices'',
            JArr [JObj [(str ''message'', JObj [(str ''content'', JStr (str ''hi''))])]])]"

definition emptyContentResponse :: jsval where
  "emptyContentResponse =
     JObj [(str ''choices'',
            JArr [JObj [(str ''message'', JObj [(str ''content'', JStr [])])]])]"

definition exampleEnv :: env where
  "exampleEnv = \<lparr> now_sent = 10, now_reply = 11, cloud = GenerateRejects,
                  local = JsonResolves hiResponse \<rparr>"

definition emptyContentEnv :: env where
  "emptyContentEnv = \<lparr> now_sent = 10, now_reply = 11, cloud = GenerateRejects,
                       local = JsonResolves emptyContentResponse \<rparr>"

section \<open>Strings\<close>

lemma trim_empty_iff: "trim s = [] \<longleftrightarrow> (\<forall>c \<in> set s. isWhiteSpace c)"
proof
  assume "trim s = []"
  then have "dropWhile isWhiteSpace (rev (dropWhile isWhiteSpace s)) = []"
    by (simp add: trim_def)
  then have all: "\<forall>c \<in> set (dropWhile isWhiteSpace s). isWhiteSpace c"
    by simp
  have "dropWhile isWhiteSpace s = []"
  proof (rule ccontr)
    assume ne: "dropWhile isWhiteSpace s \<noteq> []"
    then have "\<not> isWhiteSpace (hd (dropWhile isWhiteSpace s))"
      by (rule hd_dropWhile)
    moreover have "hd (dropWhile isWhiteSpace s) \<in> set (dropWhile isWhiteSpace s)"
      using ne by simp
    ultimately show False using all by blast
  qed
  then show "\<forall>c \<in> set s. isWhiteSpace c"
    by simp
next
  assume "\<forall>c \<in> set s. isWhiteSpace c"
  then show "trim s = []"
    by (auto simp: trim_def dest: set_dropWhileD)
qed

lemma stripTrailingSlash_snoc: "stripTrailingSlash (s @ [0x2F]) = s"
  by (simp add: stripTrailingSlash_def)

section \<open>The agent registry\<close>

lemma find_Some_holds: "find P xs = Some x \<Longrightarrow> P x \<and> x \<in> set xs"
  by (induction xs) (auto split: if_splits)

lemma getAgentById_None:
  "getAgentById s aid = None \<longleftrightarrow>
     (\<forall>a \<in> set (availablePersonal s) \<union> set (availablePresets s). agent_id a \<noteq> aid)"
  by (auto simp: getAgentById_def find_None_iff split: option.splits dest: find_Some_holds)

lemma getAgentById_Some:
  "getAgentById s aid = Some a \<Longrightarrow>
     agent_id a = aid \<and> a \<in> set (availablePersonal s) \<union> set (availablePresets s)"
  by (auto simp: getAgentById_def split: option.splits dest: find_Some_holds)

lemma setCurrent_unknown: "getAgentById s aid = None \<Longrightarrow> current (setCurrent (Inl aid) s) = None"
  by (simp add: setCurrent_def)

lemma update_unknown: "getAgentById s aid = None \<Longrightarrow> update aid adj s = Inr s"
  by (simp add: update_def)

lemma update_undefined_current:
  "getAgentById s aid = Some a \<Longrightarrow> current s = None \<Longrightarrow> update aid adj s = Inl TypeError"
  by (simp add: update_def)

text \<open>
  C1. The claim: when the identifier matches no agent of the personal or the preset list,
  \<open>setCurrent\<close> leaves \<open>current\<close> unchanged. The code does not: in the registry whose
  current agent is \<open>paul\<close>, the identifier \<open>nonexistent-id\<close> is not found, and after
  \<open>setCurrent\<close> the field \<open>current\<close> is \<open>undefined\<close>.
\<close>

theorem setCurrent_unknown_id_clears_current:
  "getAgentById exampleRegistry (str ''nonexistent-id'') = None
   \<and> current exampleRegistry = Some paul
   \<and> current (setCurrent (Inl (str ''nonexistent-id'')) exampleRegistry) = None"
  by (simp add: setCurrent_def getAgentById_def exampleRegistry_def paul_def charlotte_def str_def)




section \<open>The configuration store\<close>

text \<open>
  C8. \<open>setProvider\<close> sets the provider and leaves the endpoint and the model identifier as
  they were; setting the provider back gives the configuration one started from.
\<close>

theorem setProvider_changes_only_provider:
  "provider (setProvider p c) = p
   \<and> localEndpoint (setProvider p c) = localEndpoint c
   \<and> localModelId (setProvider p c) = localModelId c
   \<and> setProvider (provider c) (setProvider p c) = c"
  by (simp add: setProvider_def)


section \<open>The dispatch function\<close>

subsection \<open>Running the statement\<close>

lemma statement_run:
  "tryCatchFinally tb (catchBlock e c) finallyBlock w =
     (None, setLoading False
              (case fst (tb w) of
                 None \<Rightarrow> snd (tb w)
               | Some err \<Rightarrow> addMessage (networkErrorMessage e c) (snd (tb w))))"
  by (simp add: tryCatchFinally_def catchBlock_def finallyBlock_def
      split: prod.splits option.splits)

lemma sendMessage_accepted:
  "\<not> rejected w \<Longrightarrow>
   sendMessage e w =
     (None, setLoading False
              (case fst (tryBlock e w (userMessage e w) (started e w)) of
                 None \<Rightarrow> snd (tryBlock e w (userMessage e w) (started e w))
               | Some err \<Rightarrow> addMessage (networkErrorMessage e w)
                              (snd (tryBlock e w (userMessage e w) (started e w)))))"
  unfolding started_def by (simp add: sendMessage_def Let_def statement_run)

lemma started_fields:
  "chatMessages (uiStore (started e w)) = chatMessages (uiStore w) @ [userMessage e w]"
  "calls (started e w) = calls w"
  "input (started e w) = []"
  "attachments (started e w) = []"
  "loading (started e w) = True"
  by (simp_all add: started_def setLoading_def setAttachments_def setInput_def addMessage_def
        addChatMessage_def)

lemma localBranch_calls:
  "calls (snd (localBranch e c sys w)) =
     calls w @ [LocalCall (localRequest (localEndpoint (configStore c))
                             (localModelId (configStore c)) sys
                             (chatMessages (uiStore c)) (input c))]"
  by (simp add: localBranch_def Let_def send_def addMessage_def
      split: local_outcome.splits sum.splits)

lemma localBranch_resolves:
  assumes "local e = JsonResolves d" and "readContent d = Inr v"
  shows "fst (localBranch e c sys w) = None"
    and "chatMessages (uiStore (snd (localBranch e c sys w))) =
           chatMessages (uiStore w) @
             [\<lparr> role = model, msg_text = orElse v (JStr (str ''Local engine error.'')),
                timestamp = now_reply e, msg_attachments = None, groundingChunks = None \<rparr>]"
  using assms
  by (simp_all add: localBranch_def Let_def send_def addMessage_def addChatMessage_def)

lemma cloudBranch_calls:
  "calls (snd (cloudBranch e c u sys w)) =
     calls w @
       (if cloud e = CtorThrows then []
        else [CloudCall (cloudRequest (isCodingMode (uiStore c)) sys
                (cloudParts (input c)
                   (case msg_attachments u of None \<Rightarrow> [] | Some atts \<Rightarrow> atts)))])"
  by (simp add: cloudBranch_def Let_def send_def addMessage_def split: cloud_outcome.splits)

lemma tryBlock_thrown_messages:
  "fst (tryBlock e c u w) = Some err \<Longrightarrow>
   chatMessages (uiStore (snd (tryBlock e c u w))) = chatMessages (uiStore w)"
  by (simp add: tryBlock_def cloudBranch_def localBranch_def Let_def send_def addMessage_def
        addChatMessage_def split: cloud_outcome.splits local_outcome.splits sum.splits if_splits)

lemma tryBlock_completed_messages:
  "fst (tryBlock e c u w) = None \<Longrightarrow>
   \<exists>reply. role reply = model \<and>
     chatMessages (uiStore (snd (tryBlock e c u w))) = chatMessages (uiStore w) @ [reply]"
  by (simp add: tryBlock_def cloudBranch_def localBranch_def Let_def send_def addMessage_def
        addChatMessage_def split: cloud_outcome.splits local_outcome.splits sum.splits if_splits)

text \<open>The \<open>try\<close> block throws exactly on these answers of the outside.\<close>

lemma tryBlock_throws_iff:
  "fst (tryBlock e c u w) \<noteq> None \<longleftrightarrow>
     (if provider (configStore c) = gemini
      then cloud e = CtorThrows \<or> cloud e = GenerateRejects
      else local e = FetchRejects \<or> local e = JsonRejects
           \<or> (\<exists>d. local e = JsonResolves d \<and> nullish d))"
  by (auto simp: tryBlock_def cloudBranch_def localBranch_def Let_def readContent_def
      split: cloud_outcome.splits local_outcome.splits sum.splits if_splits)

lemma sendMessage_calls:
  "\<not> rejected w \<Longrightarrow>
   calls (snd (sendMessage e w)) = calls (snd (tryBlock e w (userMessage e w) (started e w)))"
  by (simp add: sendMessage_accepted setLoading_def addMessage_def split: option.splits)

lemma sendMessage_local_calls:
  assumes "\<not> rejected w" and "provider (configStore w) = local_provider"
  shows "calls (snd (sendMessage e w)) =
     calls w @ [LocalCall (localRequest (localEndpoint (configStore w))
                   (localModelId (configStore w))
                   (systemInstruction (isCodingMode (uiStore w)) (name (userStore w)))
                   (chatMessages (uiStore w)) (input w))]"
  using assms
  by (simp add: sendMessage_calls tryBlock_def Let_def localBranch_calls started_fields)

lemma sendMessage_cloud_calls:
  assumes "\<not> rejected w" and "provider (configStore w) = gemini"
  shows "calls (snd (sendMessage e w)) =
     calls w @
       (if cloud e = CtorThrows then []
        else [CloudCall (cloudRequest (isCodingMode (uiStore w))
                (systemInstruction (isCodingMode (uiStore w)) (name (userStore w)))
                (cloudParts (input w) (attachments w)))])"
  using assms
  by (simp add: sendMessage_calls tryBlock_def Let_def cloudBranch_calls started_fields
        userMessage_def)

lemma sendMessage_local_reply:
  assumes "\<not> rejected w" and "provider (configStore w) = local_provider"
    and "local e = JsonResolves d" and "readContent d = Inr v"
  shows "chatMessages (uiStore (snd (sendMessage e w))) =
     chatMessages (uiStore w) @
       [userMessage e w,
        \<lparr> role = model, msg_text = orElse v (JStr (str ''Local engine error.'')),
          timestamp = now_reply e, msg_attachments = None, groundingChunks = None \<rparr>]"
proof -
  have t: "tryBlock e w (userMessage e w) (started e w) =
        localBranch e w (systemInstruction (isCodingMode (uiStore w)) (name (userStore w)))
          (started e w)"
    using assms(2) by (simp add: tryBlock_def)
  show ?thesis
    using assms(1)
    by (simp add: sendMessage_accepted t localBranch_resolves [OF assms(3,4)] started_fields
          setLoading_def)
qed

lemma readContent_hi: "readContent hiResponse = Inr (JStr (str ''hi''))"
  by (simp add: readContent_def hiResponse_def str_def Let_def)

lemma readContent_empty: "readContent emptyContentResponse = Inr (JStr [])"
  by (simp add: readContent_def emptyContentResponse_def str_def Let_def)

lemma attach_image:
  "startsWith (att_type a) (str ''image/'') \<Longrightarrow>
   attach ps a = ps @ [InlineData (att_type a) (att_data a)]"
  by (simp add: attach_def)

lemma attach_file:
  "\<not> startsWith (att_type a) (str ''image/'') \<Longrightarrow>
   attach (TextPart t # ps) a =
     TextPart (t @ 0x0A # str ''[Attached File: '' @ att_name a @ str '']'') # ps"
  by (simp add: attach_def)

lemma photo_is_image: "startsWith (att_type photo) (str ''image/'')"
  by (simp add: photo_def str_def)

lemma memo_is_no_image: "\<not> startsWith (att_type memo) (str ''image/'')"
  by (simp add: memo_def str_def)

lemma cloudWorld_accepted: "\<not> rejected cloudWorld"
  by (simp add: rejected_def cloudWorld_def)

lemma localWorld_accepted: "\<not> rejected localWorld"
  by (simp add: rejected_def localWorld_def cloudWorld_def)

subsection \<open>The guard\<close>

text \<open>
  C4. When the input consists of white space only (or is empty) and no file is attached,
  or when a send is in flight, \<open>sendMessage\<close> returns at once: no request is sent, no
  message is appended, and the input, the attachments and the flag are as before; the
  whole state is.
\<close>

theorem sendMessage_rejected_is_noop:
  assumes "((\<forall>ch \<in> set (input w). isWhiteSpace ch) \<and> attachments w = []) \<or> loading w"
  shows "sendMessage e w = (None, w)
     \<and> calls (snd (sendMessage e w)) = calls w
     \<and> chatMessages (uiStore (snd (sendMessage e w))) = chatMessages (uiStore w)
     \<and> input (snd (sendMessage e w)) = input w
     \<and> attachments (snd (sendMessage e w)) = attachments w
     \<and> loading (snd (sendMessage e w)) = loading w"
proof -
  have "rejected w"
    using assms by (auto simp: rejected_def trim_empty_iff)
  then show ?thesis by (simp add: sendMessage_def)
qed

theorem sendMessage_rejected_is_noop_witness:
  "input blankWorld = [0x20, 0x09, 0x3000]
   \<and> isWhiteSpace 0x20 \<and> isWhiteSpace 0x09 \<and> isWhiteSpace 0x3000
   \<and> attachments blankWorld = []
   \<and> \<not> loading blankWorld
   \<and> sendMessage exampleEnv blankWorld = (None, blankWorld)
   \<and> loading busyWorld
   \<and> sendMessage exampleEnv busyWorld = (None, busyWorld)"
proof -
  have blank: "(\<forall>ch \<in> set (input blankWorld). isWhiteSpace ch) \<and> attachments blankWorld = []"
    by (simp add: blankWorld_def isWhiteSpace_def)
  have idle: "\<not> loading blankWorld"
    by (simp add: blankWorld_def cloudWorld_def)
  have busy: "loading busyWorld"
    by (simp add: busyWorld_def)
  have spaces: "input blankWorld = [0x20, 0x09, 0x3000]"
    "isWhiteSpace 0x20" "isWhiteSpace 0x09" "isWhiteSpace 0x3000"
    by (simp_all add: blankWorld_def isWhiteSpace_def)
  show ?thesis
    using sendMessage_rejected_is_noop [of blankWorld exampleEnv]
      sendMessage_rejected_is_noop [of busyWorld exampleEnv] blank idle busy spaces
    by blast
qed

subsection \<open>Every exit path\<close>

text \<open>
  C2. A call that passes the guard never rejects, ends with the loading flag false, and
  has appended the user's message and after it exactly one model-role message; when the
  \<open>try\<close> block threw (the client could not be built, the cloud call or \<open>fetch\<close> rejected,
  the body was not JSON or was \<open>null\<close>), that message is the network-error notice.
\<close>

theorem sendMessage_releases_flag_and_reports:
  assumes "\<not> rejected w"
  shows "fst (sendMessage e w) = None
     \<and> \<not> loading (snd (sendMessage e w))
     \<and> (\<exists>reply. role reply = model
          \<and> chatMessages (uiStore (snd (sendMessage e w))) =
              chatMessages (uiStore w) @ [userMessage e w, reply]
          \<and> (\<forall>err. fst (tryBlock e w (userMessage e w) (started e w)) = Some err
                \<longrightarrow> reply = networkErrorMessage e w))"
proof -
  let ?t = "tryBlock e w (userMessage e w) (started e w)"
  note run = sendMessage_accepted [OF assms, of e]
  have a: "fst (sendMessage e w) = None" by (simp add: run)
  have b: "\<not> loading (snd (sendMessage e w))" by (simp add: run setLoading_def)
  show ?thesis
  proof (cases "fst ?t")
    case None
    from tryBlock_completed_messages [OF None] obtain reply where
      r: "role reply = model"
      and m: "chatMessages (uiStore (snd ?t)) = chatMessages (uiStore (started e w)) @ [reply]"
      by blast
    have "chatMessages (uiStore (snd (sendMessage e w))) =
            chatMessages (uiStore w) @ [userMessage e w, reply]"
      by (simp add: run None m started_fields setLoading_def)
    with a b r None show ?thesis by auto
  next
    case (Some err)
    have "chatMessages (uiStore (snd (sendMessage e w))) =
            chatMessages (uiStore w) @ [userMessage e w, networkErrorMessage e w]"
      by (simp add: run Some tryBlock_thrown_messages [OF Some] started_fields setLoading_def
            addMessage_def addChatMessage_def)
    moreover have "role (networkErrorMessage e w) = model"
      by (simp add: networkErrorMessage_def)
    ultimately show ?thesis using a b by blast
  qed
qed

theorem sendMessage_releases_flag_and_reports_witness:
  "\<not> rejected cloudWorld
   \<and> fst (tryBlock exampleEnv cloudWorld (userMessage exampleEnv cloudWorld)
            (started exampleEnv cloudWorld)) = Some SdkError
   \<and> fst (sendMessage exampleEnv cloudWorld) = None
   \<and> \<not> loading (snd (sendMessage exampleEnv cloudWorld))
   \<and> chatMessages (uiStore (snd (sendMessage exampleEnv cloudWorld))) =
       exampleHistory @ [userMessage exampleEnv cloudWorld,
                         networkErrorMessage exampleEnv cloudWorld]
   \<and> msg_text (networkErrorMessage exampleEnv cloudWorld) =
       JStr (str ''Network Error: Verify that your API Key is valid.'')"
proof -
  have thrown: "fst (tryBlock exampleEnv cloudWorld (userMessage exampleEnv cloudWorld)
            (started exampleEnv cloudWorld)) = Some SdkError"
    by (simp add: tryBlock_def cloudBranch_def exampleEnv_def cloudWorld_def initialConfig_def
          Let_def)
  have history: "chatMessages (uiStore cloudWorld) = exampleHistory"
    by (simp add: cloudWorld_def)
  have notice: "msg_text (networkErrorMessage exampleEnv cloudWorld) =
       JStr (str ''Network Error: Verify that your API Key is valid.'')"
    by (simp add: networkErrorMessage_def cloudWorld_def initialConfig_def str_def)
  show ?thesis
    using sendMessage_releases_flag_and_reports [OF cloudWorld_accepted, of exampleEnv]
      cloudWorld_accepted thrown history notice
    by auto
qed

subsection \<open>The local request\<close>

text \<open>
  C5. With the local provider, the endpoint \<open>http://localhost:11434/v1/\<close> and the response
  \<open>{choices: [{message: {content: "hi"}}]}\<close>, the one request sent is a POST to
  \<open>http://localhost:11434/v1/chat/completions\<close>, and the message appended after the
  user's is a model-role message with the text \<open>hi\<close>.
\<close>

theorem local_dispatch_posts_to_chat_completions:
  assumes "provider (configStore w) = local_provider"
    and "localEndpoint (configStore w) = str ''http://localhost:11434/v1/''"
    and "\<not> rejected w"
    and "local e = JsonResolves hiResponse"
  shows "\<exists>req. calls (snd (sendMessage e w)) = calls w @ [LocalCall req]
       \<and> url req = str ''http://localhost:11434/v1/chat/completions''
       \<and> http_method req = str ''POST''
       \<and> chatMessages (uiStore (snd (sendMessage e w))) =
           chatMessages (uiStore w) @
             [userMessage e w,
              \<lparr> role = model, msg_text = JStr (str ''hi''), timestamp = now_reply e,
                msg_attachments = None, groundingChunks = None \<rparr>]"
proof -
  have u: "stripTrailingSlash (str ''http://localhost:11434/v1/'') @ str ''/chat/completions''
           = str ''http://localhost:11434/v1/chat/completions''"
    by (simp add: stripTrailingSlash_def str_def)
  have "orElse (JStr (str ''hi'')) (JStr (str ''Local engine error.'')) = JStr (str ''hi'')"
    by (simp add: orElse_def str_def)
  then show ?thesis
    using sendMessage_local_calls [OF assms(3,1), of e]
      sendMessage_local_reply [OF assms(3,1,4) readContent_hi] assms(2) u
    by (simp add: localRequest_def)
qed

theorem local_dispatch_posts_to_chat_completions_witness:
  "provider (configStore localWorld) = local_provider
   \<and> localEndpoint (configStore localWorld) = str ''http://localhost:11434/v1/''
   \<and> \<not> rejected localWorld
   \<and> local exampleEnv = JsonResolves hiResponse
   \<and> (\<exists>req. calls (snd (sendMessage exampleEnv localWorld)) = [LocalCall req]
         \<and> url req = str ''http://localhost:11434/v1/chat/completions''
         \<and> http_method req = str ''POST'')
   \<and> chatMessages (uiStore (snd (sendMessage exampleEnv localWorld))) =
       exampleHistory @
         [userMessage exampleEnv localWorld,
          \<lparr> role = model, msg_text = JStr (str ''hi''), timestamp = 11,
            msg_attachments = None, groundingChunks = None \<rparr>]"
proof -
  have p: "provider (configStore localWorld) = local_provider"
    and ep: "localEndpoint (configStore localWorld) = str ''http://localhost:11434/v1/''"
    and c: "calls localWorld = []"
    and h: "chatMessages (uiStore localWorld) = exampleHistory"
    by (simp_all add: localWorld_def cloudWorld_def)
  have r: "local exampleEnv = JsonResolves hiResponse" and t: "now_reply exampleEnv = 11"
    by (simp_all add: exampleEnv_def)
  show ?thesis
    using local_dispatch_posts_to_chat_completions [OF p ep localWorld_accepted r]
      p ep localWorld_accepted r c h t
    by auto
qed

text \<open>
  C6. With the local provider, the body of the request has the configured model
  identifier, the temperature 0.7 and the messages: the system instruction with role
  \<open>system\<close>, then every stored message in order, \<open>user\<close> as \<open>user\<close> and \<open>model\<close> as
  \<open>assistant\<close>, with its text as content, then the new input with role \<open>user\<close>.
\<close>

theorem local_request_body:
  assumes "provider (configStore w) = local_provider" and "\<not> rejected w"
  shows "\<exists>req. calls (snd (sendMessage e w)) = calls w @ [LocalCall req]
       \<and> b_model (body req) = localModelId (configStore w)
       \<and> b_temperature (body req) = 7 / 10
       \<and> b_messages (body req) =
           \<lparr> w_role = str ''system'',
             w_content = JStr (systemInstruction (isCodingMode (uiStore w))
                                 (name (userStore w))) \<rparr>
           # map (\<lambda>m. \<lparr> w_role = (case role m of user \<Rightarrow> str ''user''
                                    | model \<Rightarrow> str ''assistant''),
                         w_content = msg_text m \<rparr>) (chatMessages (uiStore w))
           @ [\<lparr> w_role = str ''user'', w_content = JStr (input w) \<rparr>]"
proof -
  have "wireMessage =
      (\<lambda>m. \<lparr> w_role = (case role m of user \<Rightarrow> str ''user'' | model \<Rightarrow> str ''assistant''),
              w_content = msg_text m \<rparr>)"
    by (rule ext) (simp add: wireMessage_def split: Role.splits)
  then show ?thesis
    using sendMessage_local_calls [OF assms(2,1), of e] by (simp add: localRequest_def)
qed

theorem local_request_body_witness:
  "provider (configStore localWorld) = local_provider
   \<and> \<not> rejected localWorld
   \<and> (\<exists>req. calls (snd (sendMessage exampleEnv localWorld)) = [LocalCall req]
         \<and> b_model (body req) = str ''llama3''
         \<and> b_temperature (body req) = 7 / 10
         \<and> b_messages (body req) =
             [\<lparr> w_role = str ''system'',
                w_content = JStr (str ''You are a helpful personal assistant helping Ann.'') \<rparr>,
              \<lparr> w_role = str ''user'', w_content = JStr (str ''ping'') \<rparr>,
              \<lparr> w_role = str ''assistant'', w_content = JStr (str ''pong'') \<rparr>,
              \<lparr> w_role = str ''user'', w_content = JStr (str ''describe these'') \<rparr>])"
proof -
  have p: "provider (configStore localWorld) = local_provider"
    and c: "calls localWorld = []"
    and m: "localModelId (configStore localWorld) = str ''llama3''"
    and i: "input localWorld = str ''describe these''"
    by (simp_all add: localWorld_def cloudWorld_def)
  have s: "systemInstruction (isCodingMode (uiStore localWorld)) (name (userStore localWorld))
           = str ''You are a helpful personal assistant helping Ann.''"
    by (simp add: systemInstruction_def localWorld_def cloudWorld_def str_def)
  have h: "map (\<lambda>m. \<lparr> w_role = (case role m of user \<Rightarrow> str ''user''
                                    | model \<Rightarrow> str ''assistant''),
                         w_content = msg_text m \<rparr>) (chatMessages (uiStore localWorld)) =
           [\<lparr> w_role = str ''user'', w_content = JStr (str ''ping'') \<rparr>,
            \<lparr> w_role = str ''assistant'', w_content = JStr (str ''pong'') \<rparr>]"
    by (simp add: localWorld_def cloudWorld_def exampleHistory_def)
  show ?thesis
    using local_request_body [OF p localWorld_accepted, of exampleEnv]
      p localWorld_accepted c m i s h
    by auto
qed

text \<open>
  C10. With the local provider, when the content read from the response is falsy (the
  empty string, \<open>null\<close>, \<open>false\<close>, zero, or absent), the text of the appended model-role
  message is \<open>Local engine error.\<close>
\<close>

theorem local_falsy_content_gives_placeholder:
  assumes "provider (configStore w) = local_provider" and "\<not> rejected w"
    and "local e = JsonResolves d" and "readContent d = Inr v" and "\<not> truthy v"
  shows "chatMessages (uiStore (snd (sendMessage e w))) =
     chatMessages (uiStore w) @
       [userMessage e w,
        \<lparr> role = model, msg_text = JStr (str ''Local engine error.''),
          timestamp = now_reply e, msg_attachments = None, groundingChunks = None \<rparr>]"
  using sendMessage_local_reply [OF assms(2,1,3,4)] assms(5) by (simp add: orElse_def)

theorem local_falsy_content_gives_placeholder_witness:
  "provider (configStore localWorld) = local_provider
   \<and> \<not> rejected localWorld
   \<and> local emptyContentEnv = JsonResolves emptyContentResponse
   \<and> readContent emptyContentResponse = Inr (JStr [])
   \<and> \<not> truthy (JStr [])
   \<and> chatMessages (uiStore (snd (sendMessage emptyContentEnv localWorld))) =
       exampleHistory @
         [userMessage emptyContentEnv localWorld,
          \<lparr> role = model, msg_text = JStr (str ''Local engine error.''), timestamp = 11,
            msg_attachments = None, groundingChunks = None \<rparr>]"
proof -
  have p: "provider (configStore localWorld) = local_provider"
    and h: "chatMessages (uiStore localWorld) = exampleHistory"
    by (simp_all add: localWorld_def cloudWorld_def)
  have r: "local emptyContentEnv = JsonResolves emptyContentResponse"
    and t: "now_reply emptyContentEnv = 11"
    by (simp_all add: emptyContentEnv_def)
  have f: "\<not> truthy (JStr [])" by simp
  show ?thesis
    using local_falsy_content_gives_placeholder
            [OF p localWorld_accepted r readContent_empty f]
      p localWorld_accepted r readContent_empty f h t
    by auto
qed

subsection \<open>The cloud request\<close>

text \<open>
  C7. In cloud mode, with the text \<open>describe these\<close>, one attachment whose type starts
  with \<open>image/\<close> and one whose type does not (in either order), the request sent has one
  entry of role \<open>user\<close> with two parts: the text \<open>describe these\<close> followed by a line feed
  and \<open>[Attached File: name]\<close> with the name of the other file, and one inline part
  with the image's type and data. The data of the other file occurs nowhere in the
  request.
\<close>

theorem cloud_parts_for_image_and_file:
  assumes "provider (configStore w) = gemini"
    and "\<not> loading w"
    and "cloud e \<noteq> CtorThrows"
    and "input w = str ''describe these''"
    and "attachments w = [img, doc] \<or> attachments w = [doc, img]"
    and "startsWith (att_type img) (str ''image/'')"
    and "\<not> startsWith (att_type doc) (str ''image/'')"
  shows "calls (snd (sendMessage e w)) =
     calls w @
       [CloudCall
          \<lparr> g_model = str ''gemini-3-pro-preview'',
            g_contents =
              [\<lparr> c_role = str ''user'',
                 c_parts =
                   [TextPart (str ''describe these'' @ 0x0A # str ''[Attached File: ''
                              @ att_name doc @ str '']''),
                    InlineData (att_type img) (att_data img)] \<rparr>],
            g_systemInstruction =
              systemInstruction (isCodingMode (uiStore w)) (name (userStore w)),
            g_tools = (if isCodingMode (uiStore w) then [googleSearch] else []) \<rparr>]"
proof -
  have acc: "\<not> rejected w"
    using assms(2,5) by (auto simp: rejected_def)
  have "cloudParts (input w) (attachments w) =
          [TextPart (str ''describe these'' @ 0x0A # str ''[Attached File: ''
                     @ att_name doc @ str '']''),
           InlineData (att_type img) (att_data img)]"
    using assms(5)
  proof
    assume "attachments w = [img, doc]"
    then show ?thesis
      by (simp add: cloudParts_def assms(4) attach_image [OF assms(6)] attach_file [OF assms(7)])
  next
    assume "attachments w = [doc, img]"
    then show ?thesis
      by (simp add: cloudParts_def assms(4) attach_image [OF assms(6)] attach_file [OF assms(7)])
  qed
  then show ?thesis
    using sendMessage_cloud_calls [OF acc assms(1), of e] assms(3)
    by (simp add: cloudRequest_def)
qed

theorem cloud_parts_for_image_and_file_witness:
  "provider (configStore cloudWorld) = gemini
   \<and> \<not> loading cloudWorld
   \<and> cloud exampleEnv \<noteq> CtorThrows
   \<and> input cloudWorld = str ''describe these''
   \<and> attachments cloudWorld = [photo, memo]
   \<and> startsWith (att_type photo) (str ''image/'')
   \<and> \<not> startsWith (att_type memo) (str ''image/'')
   \<and> calls (snd (sendMessage exampleEnv cloudWorld)) =
       [CloudCall
          \<lparr> g_model = str ''gemini-3-pro-preview'',
            g_contents =
              [\<lparr> c_role = str ''user'',
                 c_parts =
                   [TextPart (str ''describe these'' @ 0x0A # str ''[Attached File: notes.txt]''),
                    InlineData (str ''image/png'') (str ''iVBORw0KGgo='')] \<rparr>],
            g_systemInstruction = str ''You are a helpful personal assistant helping Ann.'',
            g_tools = [] \<rparr>]"
proof -
  have p: "provider (configStore cloudWorld) = gemini"
    and l: "\<not> loading cloudWorld"
    and i: "input cloudWorld = str ''describe these''"
    and a: "attachments cloudWorld = [photo, memo]"
    and c: "calls cloudWorld = []"
    and m: "\<not> isCodingMode (uiStore cloudWorld)"
    by (simp_all add: cloudWorld_def initialConfig_def)
  have o: "cloud exampleEnv \<noteq> CtorThrows"
    by (simp add: exampleEnv_def)
  have s: "systemInstruction (isCodingMode (uiStore cloudWorld)) (name (userStore cloudWorld))
           = str ''You are a helpful personal assistant helping Ann.''"
    by (simp add: systemInstruction_def cloudWorld_def str_def)
  have n: "str ''[Attached File: '' @ att_name memo @ str '']'' = str ''[Attached File: notes.txt]''"
    by (simp add: memo_def str_def)
  have d: "att_type photo = str ''image/png''" "att_data photo = str ''iVBORw0KGgo=''"
    by (simp_all add: photo_def)
  have a': "attachments cloudWorld = [photo, memo] \<or> attachments cloudWorld = [memo, photo]"
    using a by simp
  show ?thesis
    using cloud_parts_for_image_and_file [OF p l o i a' photo_is_image memo_is_no_image]
      p l o i a photo_is_image memo_is_no_image c m s n d
    by simp
qed



end
